theory Spec2Isabelle
  imports Main
begin

section \<open>Python values\<close>

text \<open>
  The module handles playbook parameters and request bodies, which are Python values
  built from \<open>None\<close>, booleans, integers, strings, lists and dictionaries. A dictionary
  keeps its insertion order, so it is an association list (whose keys are distinct
  in every dictionary Python can build). Floating point numbers do not occur in the
  module's parameters and are left out.
\<close>

datatype pyval =
    PNone
  | PBool bool
  | PInt int
  | PStr string
  | PList "pyval list"
  | PDict "(string \<times> pyval) list"

text \<open>Python's truth value of an object, as \<open>if x\<close> and \<open>x and y\<close> test it.\<close>

fun truthy :: "pyval \<Rightarrow> bool" where
  "truthy PNone = False"
| "truthy (PBool b) = b"
| "truthy (PInt n) = (n \<noteq> 0)"
| "truthy (PStr s) = (s \<noteq> [])"
| "truthy (PList xs) = (xs \<noteq> [])"
| "truthy (PDict d) = (d \<noteq> [])"

text \<open>
  The parameters arrive typed by the argument specification (\<open>type='str'\<close>,
  \<open>type='int'\<close>, \<open>type='list'\<close>, \<open>type='dict'\<close>), each of them possibly \<open>None\<close>.
  The following functions give the Python value of such a parameter where the module
  tests it or sends it.
\<close>

definition str_val :: "string option \<Rightarrow> pyval" where
  "str_val s = (case s of None \<Rightarrow> PNone | Some x \<Rightarrow> PStr x)"

definition int_val :: "int option \<Rightarrow> pyval" where
  "int_val i = (case i of None \<Rightarrow> PNone | Some n \<Rightarrow> PInt n)"

definition dict_val :: "(string \<times> pyval) list option \<Rightarrow> pyval" where
  "dict_val d = (case d of None \<Rightarrow> PNone | Some kvs \<Rightarrow> PDict kvs)"

text \<open>\<open>str(x)\<close> of a string parameter: the string itself, and \<open>'None'\<close> for \<open>None\<close>.\<close>

definition str :: "string option \<Rightarrow> string" where
  "str s = (case s of None \<Rightarrow> ''None'' | Some x \<Rightarrow> x)"

text \<open>\<open>x in xs\<close> for a list of integers compares with \<open>==\<close>, under which \<open>True == 1\<close>.\<close>

fun py_eq_int :: "pyval \<Rightarrow> int \<Rightarrow> bool" where
  "py_eq_int (PInt m) n = (m = n)"
| "py_eq_int (PBool b) n = ((if b then 1 else 0) = n)"
| "py_eq_int v n = False"

definition py_in :: "pyval \<Rightarrow> int list \<Rightarrow> bool" where
  "py_in v xs = list_ex (py_eq_int v) xs"

text \<open>\<open>sub in s\<close> for strings: \<open>sub\<close> occurs in \<open>s\<close> as a contiguous substring.\<close>

fun startswith :: "string \<Rightarrow> string \<Rightarrow> bool" where
  "startswith s [] = True"
| "startswith [] (p # ps) = False"
| "startswith (c # cs) (p # ps) = (c = p \<and> startswith cs ps)"

fun str_in :: "string \<Rightarrow> string \<Rightarrow> bool" where
  "str_in sub [] = (sub = [])"
| "str_in sub (c # cs) = (startswith (c # cs) sub \<or> str_in sub cs)"

text \<open>
  \<open>s.lower()\<close>. The letters \<open>A\<close> to \<open>Z\<close> are mapped to \<open>a\<close> to \<open>z\<close>; every other
  character is kept. The action names consist of lower-case ASCII letters and the
  underscore only, and no character outside ASCII is lowered to one of these, so the
  comparisons of \<open>api_call\<close> do not depend on how such characters are treated.
\<close>

definition lower_char :: "char \<Rightarrow> char" where
  "lower_char c =
     (case map_of (zip ''ABCDEFGHIJKLMNOPQRSTUVWXYZ'' ''abcdefghijklmnopqrstuvwxyz'') c of
        Some l \<Rightarrow> l
      | None \<Rightarrow> c)"

definition lower :: "string \<Rightarrow> string" where
  "lower s = map lower_char s"

section \<open>Exceptions and module exits\<close>

datatype pyerr = KeyError string | TypeError | UnboundLocalError string

text \<open>
  A run of the module ends in \<open>module.exit_json(**kwargs)\<close>, in
  \<open>module.fail_json(**kwargs)\<close> (both leave the process) or in an exception nobody
  catches. The keyword arguments are kept as they are passed.
\<close>

datatype halt =
    Exit_json "(string \<times> pyval) list"
  | Fail_json "(string \<times> pyval) list"
  | Raised pyerr

definition sum_bind :: "'e + 'a \<Rightarrow> ('a \<Rightarrow> 'e + 'b) \<Rightarrow> 'e + 'b" where
  "sum_bind m f = (case m of Inl e \<Rightarrow> Inl e | Inr x \<Rightarrow> f x)"

text \<open>\<open>v[k]\<close> with a string key: only a dictionary can be subscripted by it.\<close>

definition subscript :: "pyval \<Rightarrow> string \<Rightarrow> halt + pyval" where
  "subscript v k =
     (case v of
        PDict d \<Rightarrow> (case map_of d k of Some x \<Rightarrow> Inr x | None \<Rightarrow> Inl (Raised (KeyError k)))
      | _ \<Rightarrow> Inl (Raised TypeError))"

section \<open>The HTTP client collaborator\<close>

text \<open>
  \<open>CentralApi\<close> lives in \<open>module_utils/central_http.py\<close>, outside the module. It is a
  parameter of the model: a record of its seven methods, which are taken to return.
  The type \<open>'h\<close> is the one of the header map. The client answers with a dictionary
  \<open>{"resp": ..., "code": ...}\<close>, here the record \<open>result\<close>.
\<close>

record result =
  resp :: pyval
  code :: pyval

record 'h central_api =
  get_headers :: "bool \<Rightarrow> string \<Rightarrow> 'h"
  get_url :: "string \<Rightarrow> (string \<times> pyval) list \<Rightarrow> string"
  get_list_params :: "pyval list \<Rightarrow> pyval"
  get :: "string \<Rightarrow> 'h \<Rightarrow> result"
  post :: "string \<Rightarrow> 'h \<Rightarrow> pyval \<Rightarrow> result"
  patch :: "string \<Rightarrow> 'h \<Rightarrow> pyval \<Rightarrow> result"
  delete :: "string \<Rightarrow> 'h \<Rightarrow> result"

text \<open>
  Every call of a method of the client is logged with its arguments, in the order of
  the calls, so that a handler returns its value together with the calls it made.
\<close>

datatype 'h call =
    Call_get_headers bool string
  | Call_get_url string "(string \<times> pyval) list"
  | Call_get_list_params "pyval list"
  | Call_get string 'h
  | Call_post string 'h pyval
  | Call_patch string 'h pyval
  | Call_delete string 'h


section \<open>The module\<close>

subsection \<open>\<open>remove_nulls\<close>\<close>

text \<open>
  The loop over \<open>data.items()\<close> copies the entries whose value is not \<open>None\<close> in their
  order, and prunes a value that is itself a dictionary. A value of any other kind, a
  list included, is copied as it is.
\<close>

fun remove_nulls :: "(string \<times> pyval) list \<Rightarrow> (string \<times> pyval) list" where
  "remove_nulls [] = []"
| "remove_nulls ((key, PNone) # data) = remove_nulls data"
| "remove_nulls ((key, PDict d) # data) = (key, PDict (remove_nulls d)) # remove_nulls data"
| "remove_nulls ((key, v) # data) = (key, v) # remove_nulls data"

subsection \<open>\<open>error_msg\<close>\<close>

text \<open>
  For a method other than the five named ones the local variable \<open>resp\<close> is never
  assigned, and reading it raises \<open>UnboundLocalError\<close>.
\<close>

definition error_msg :: "string \<Rightarrow> halt + result" where
  "error_msg method =
     (if method = ''create'' \<or> method = ''update'' then
        Inr \<lparr>resp = PStr ''Group name or Group attributes not present in the playbook'',
             code = PInt 400\<rparr>
      else if method = ''delete'' then
        Inr \<lparr>resp = PStr ''Group name to be deleted not present in the playbook'',
             code = PInt 400\<rparr>
      else if method = ''clone'' then
        Inr \<lparr>resp = PStr ''Group name or clone-from-group parameters not present in the playbook'',
             code = PInt 400\<rparr>
      else if method = ''get'' then
        Inr \<lparr>resp = PStr ''List of groups (group_list) not present in the playbook'',
             code = PInt 400\<rparr>
      else Inl (Raised (UnboundLocalError ''resp'')))"

subsection \<open>The six handlers\<close>

definition get_groups ::
  "'h central_api \<Rightarrow> int option \<Rightarrow> int option \<Rightarrow> (halt + result) \<times> 'h call list" where
  "get_groups central_api lim off =
     (let endpoint = ''/configuration/v2/groups'';
          query_params = [(''limit'', int_val lim), (''offset'', int_val off)];
          headers = get_headers central_api False ''get'';
          path = get_url central_api endpoint query_params;
          result = get central_api path headers
      in (Inr result,
          [Call_get_headers False ''get'', Call_get_url endpoint query_params,
           Call_get path headers]))"

definition get_group_mode ::
  "'h central_api \<Rightarrow> pyval list option \<Rightarrow> (halt + result) \<times> 'h call list" where
  "get_group_mode central_api grp_list =
     (case grp_list of
        Some gl \<Rightarrow>
          (let groups = get_list_params central_api gl;
               query_params = [(''groups'', groups)];
               headers = get_headers central_api False ''get'';
               path = get_url central_api ''/configuration/v2/groups/template_info'' query_params;
               result = get central_api path headers
           in (Inr result,
               [Call_get_list_params gl, Call_get_headers False ''get'',
                Call_get_url ''/configuration/v2/groups/template_info'' query_params,
                Call_get path headers]))
      | None \<Rightarrow> (error_msg ''get'', []))"

definition clone ::
  "'h central_api \<Rightarrow> string option \<Rightarrow> string option \<Rightarrow> (halt + result) \<times> 'h call list" where
  "clone central_api grp_name clone_from =
     (if truthy (str_val grp_name) \<and> str_val clone_from \<noteq> PNone then
        (let path = ''/configuration/v2/groups/clone'';
             data = PDict [(''group'', str_val grp_name), (''clone_group'', str_val clone_from)];
             headers = get_headers central_api False ''post'';
             result = post central_api path headers data
         in (Inr result, [Call_get_headers False ''post'', Call_post path headers data]))
      else (error_msg ''clone'', []))"

definition create_group ::
  "'h central_api \<Rightarrow> string option \<Rightarrow> (string \<times> pyval) list option
     \<Rightarrow> (halt + result) \<times> 'h call list" where
  "create_group central_api grp_name grp_attributes =
     (if truthy (str_val grp_name) \<and> dict_val grp_attributes \<noteq> PNone then
        (let path = ''/configuration/v3/groups'';
             ga = dict_val grp_attributes
         in case
              sum_bind (subscript ga ''template_info'') (\<lambda>ti1.
              sum_bind (subscript ti1 ''wired'') (\<lambda>wired.
              sum_bind (subscript ga ''template_info'') (\<lambda>ti2.
              sum_bind (subscript ti2 ''wireless'') (\<lambda>wireless.
              sum_bind (subscript ga ''device_type'') (\<lambda>device_type.
              sum_bind (subscript ga ''architecture'') (\<lambda>architecture.
              sum_bind (subscript ga ''ap_role'') (\<lambda>ap_role.
              sum_bind (subscript ga ''gw_role'') (\<lambda>gw_role.
              sum_bind (subscript ga ''switch_type'') (\<lambda>switch_type.
              sum_bind (subscript ga ''monitor_mode'') (\<lambda>monitor_mode.
              sum_bind (subscript ga ''new_central'') (\<lambda>new_central.
              Inr [(''group'', str_val grp_name),
                   (''group_attributes'', PDict
                      [(''template_info'', PDict
                          [(''Wired'', wired),
                           (''Wireless'', wireless)]),
                       (''group_properties'', PDict
                          [(''AllowedDevTypes'', device_type),
                           (''Architecture'', architecture),
                           (''ApNetworkRole'', ap_role),
                           (''GwNetworkRole'', gw_role),
                           (''AllowedSwitchTypes'', switch_type),
                           (''MonitorOnly:'', monitor_mode),
                           (''NewCentral'', new_central)])])])))))))))))
            of
              Inl e \<Rightarrow> (Inl e, [])
            | Inr data \<Rightarrow>
                (let headers = get_headers central_api False ''post'';
                     body = PDict (remove_nulls data);
                     result = post central_api path headers body
                 in (Inr result, [Call_get_headers False ''post'', Call_post path headers body])))
      else (error_msg ''create'', []))"

definition update_group ::
  "'h central_api \<Rightarrow> string option \<Rightarrow> (string \<times> pyval) list option
     \<Rightarrow> (halt + result) \<times> 'h call list" where
  "update_group central_api grp_name grp_attributes =
     (if truthy (str_val grp_name) \<and> dict_val grp_attributes \<noteq> PNone then
        (let path = ''/configuration/v2/groups/'' @ str grp_name;
             data = dict_val grp_attributes;
             headers = get_headers central_api False ''post'';
             result = patch central_api path headers data
         in (Inr result, [Call_get_headers False ''post'', Call_patch path headers data]))
      else (error_msg ''update'', []))"

definition delete_group ::
  "'h central_api \<Rightarrow> string option \<Rightarrow> (halt + result) \<times> 'h call list" where
  "delete_group central_api grp_name =
     (if str_val grp_name \<noteq> PNone then
        (let path = ''/configuration/v1/groups/'' @ str grp_name;
             headers = get_headers central_api False ''delete'';
             result = delete central_api path headers
         in (Inr result, [Call_get_headers False ''delete'', Call_delete path headers]))
      else (error_msg ''delete'', []))"

subsection \<open>\<open>api_call\<close>\<close>

text \<open>
  \<open>module.params\<close> after the argument specification of \<open>main\<close> has been applied: the
  action is a string, the other parameters are typed and may be \<open>None\<close>.
\<close>

record params =
  action :: string
  limit :: "int option"
  offset :: "int option"
  group_list :: "pyval list option"
  group_name :: "string option"
  group_attributes :: "(string \<times> pyval) list option"
  clone_from_group :: "string option"

definition api_call :: "'h central_api \<Rightarrow> params \<Rightarrow> (halt + result) \<times> 'h call list" where
  "api_call central_api p =
     (let act = lower (action p) in
      if act = ''get_groups'' then get_groups central_api (limit p) (offset p)
      else if act = ''get_group_mode'' then get_group_mode central_api (group_list p)
      else if act = ''clone'' then clone central_api (group_name p) (clone_from_group p)
      else if act = ''create'' then create_group central_api (group_name p) (group_attributes p)
      else if act = ''update'' then update_group central_api (group_name p) (group_attributes p)
      else if act = ''delete'' then delete_group central_api (group_name p)
      else (Inl (Fail_json [(''changed'', PBool False),
                            (''msg'', PStr ''Unsupported action provided in playbook'')]), []))"

subsection \<open>\<open>main\<close>\<close>

text \<open>
  \<open>json.loads\<close> belongs to Python's library and is a parameter: \<open>loads v = None\<close>
  stands for the \<open>TypeError\<close> or \<open>ValueError\<close> that \<open>main\<close> catches, after which the
  response is kept as it was.
\<close>

definition success_codes :: "int list" where
  "success_codes = [200, 201]"

definition exit_codes :: "int list" where
  "exit_codes = [304, 400, 404]"

definition main ::
  "'h central_api \<Rightarrow> (pyval \<Rightarrow> pyval option) \<Rightarrow> params \<Rightarrow> halt \<times> 'h call list" where
  "main central_api loads p =
     (let changed = (\<not> str_in ''get'' (action p)) in
      case api_call central_api p of
        (Inl h, calls) \<Rightarrow> (h, calls)
      | (Inr r, calls) \<Rightarrow>
          (let result = (case loads (resp r) of Some v \<Rightarrow> r\<lparr>resp := v\<rparr> | None \<Rightarrow> r) in
           if truthy (code result) \<and> py_in (code result) success_codes then
             (Exit_json [(''changed'', PBool changed), (''msg'', resp result),
                         (''response_code'', code result)], calls)
           else if truthy (code result) \<and> py_in (code result) exit_codes then
             (Exit_json [(''changed'', PBool False), (''msg'', resp result),
                         (''response_code'', code result)], calls)
           else
             (Fail_json [(''changed'', PBool False), (''msg'', resp result),
                         (''response_code'', code result)], calls)))"

subsection \<open>The argument specification of \<open>main\<close>\<close>




section \<open>Notions used by the properties\<close>



text \<open>
  A client for the concrete runs below: its headers are the name of the HTTP method, it
  maps an endpoint to itself, joins no list, and answers every request with \<open>r\<close>.
\<close>

definition fixed_reply_api :: "result \<Rightarrow> string central_api" where
  "fixed_reply_api r =
     \<lparr>get_headers = (\<lambda>auth http_method. http_method),
      get_url = (\<lambda>endpoint query_params. endpoint),
      get_list_params = (\<lambda>xs. PStr []),
      get = (\<lambda>path headers. r),
      post = (\<lambda>path headers data. r),
      patch = (\<lambda>path headers data. r),
      delete = (\<lambda>path headers. r)\<rparr>"

text \<open>The parameters of a playbook task that sets nothing but the action.\<close>

definition task :: "string \<Rightarrow> params" where
  "task a =
     \<lparr>action = a, limit = Some 20, offset = Some 0, group_list = None, group_name = None,
      group_attributes = None, clone_from_group = None\<rparr>"

section \<open>Auxiliary facts\<close>





lemma py_in_success: "py_in (PInt c) success_codes = (c = 200 \<or> c = 201)"
  by (auto simp add: py_in_def success_codes_def)

lemma py_in_exit: "py_in (PInt c) exit_codes = (c = 304 \<or> c = 400 \<or> c = 404)"
  by (auto simp add: py_in_def exit_codes_def)

lemma error_msg_code: "error_msg m = Inr r \<Longrightarrow> code r = PInt 400"
  by (auto simp add: error_msg_def split: if_splits)

lemma error_msg_get:
  "error_msg ''get'' =
     Inr \<lparr>resp = PStr ''List of groups (group_list) not present in the playbook'',
          code = PInt 400\<rparr>"
  by (simp add: error_msg_def)

lemma error_msg_clone:
  "error_msg ''clone'' =
     Inr \<lparr>resp = PStr ''Group name or clone-from-group parameters not present in the playbook'',
          code = PInt 400\<rparr>"
  by (simp add: error_msg_def)

lemma error_msg_create:
  "error_msg ''create'' =
     Inr \<lparr>resp = PStr ''Group name or Group attributes not present in the playbook'',
          code = PInt 400\<rparr>"
  by (simp add: error_msg_def)

lemma error_msg_update:
  "error_msg ''update'' =
     Inr \<lparr>resp = PStr ''Group name or Group attributes not present in the playbook'',
          code = PInt 400\<rparr>"
  by (simp add: error_msg_def)

lemma error_msg_delete:
  "error_msg ''delete'' =
     Inr \<lparr>resp = PStr ''Group name to be deleted not present in the playbook'',
          code = PInt 400\<rparr>"
  by (simp add: error_msg_def)


section \<open>Response classification\<close>

text \<open>
  Claim C1. Whatever result \<open>api_call\<close> hands to \<open>main\<close>, the exit of the module is a
  function of its integer status code \<open>c\<close>: for 200 and 201 the module exits with the
  response body and the code (the success outcome), for 304, 400 and 404 it exits with
  \<open>changed=False\<close> and the response body (the no-op failure), and for every other
  integer it fails with the response body (the fatal failure). The three cases exclude
  each other and cover every integer. The body is the parsed response where
  \<open>json.loads\<close> succeeds and the raw response otherwise.
\<close>

theorem main_classifies_status:
  assumes "api_call central_api p = (Inr r, calls)" and "code r = PInt c"
  shows "main central_api loads p =
     (let body = (case loads (resp r) of Some v \<Rightarrow> v | None \<Rightarrow> resp r) in
      if c = 200 \<or> c = 201 then
        (Exit_json [(''changed'', PBool (\<not> str_in ''get'' (action p))), (''msg'', body),
                    (''response_code'', PInt c)], calls)
      else if c = 304 \<or> c = 400 \<or> c = 404 then
        (Exit_json [(''changed'', PBool False), (''msg'', body),
                    (''response_code'', PInt c)], calls)
      else
        (Fail_json [(''changed'', PBool False), (''msg'', body),
                    (''response_code'', PInt c)], calls))"
  using assms
  by (cases "loads (resp r)") (auto simp add: main_def Let_def py_in_success py_in_exit)

text \<open>
  Claim C1, at a concrete run: deleting the group \<open>stale-group\<close>, which the server
  answers with 404, exits with \<open>changed=False\<close>.
\<close>

theorem main_classifies_status_witness:
  "api_call (fixed_reply_api \<lparr>resp = PStr ''gone'', code = PInt 404\<rparr>)
        ((task ''delete'')\<lparr>group_name := Some ''stale-group''\<rparr>) =
     (Inr \<lparr>resp = PStr ''gone'', code = PInt 404\<rparr>,
      [Call_get_headers False ''delete'',
       Call_delete ''/configuration/v1/groups/stale-group'' ''delete'']) \<and>
   main (fixed_reply_api \<lparr>resp = PStr ''gone'', code = PInt 404\<rparr>) (\<lambda>v. None)
        ((task ''delete'')\<lparr>group_name := Some ''stale-group''\<rparr>) =
     (Exit_json [(''changed'', PBool False), (''msg'', PStr ''gone''),
                 (''response_code'', PInt 404)],
      [Call_get_headers False ''delete'',
       Call_delete ''/configuration/v1/groups/stale-group'' ''delete''])"
proof -
  let ?r = "\<lparr>resp = PStr ''gone'', code = PInt 404\<rparr>"
  let ?p = "(task ''delete'')\<lparr>group_name := Some ''stale-group''\<rparr>"
  have run: "api_call (fixed_reply_api ?r) ?p =
     (Inr ?r, [Call_get_headers False ''delete'',
               Call_delete ''/configuration/v1/groups/stale-group'' ''delete''])"
    by (simp add: api_call_def task_def lower_def lower_char_def delete_group_def
        fixed_reply_api_def str_val_def str_def Let_def)
  have status: "code ?r = PInt 404"
    by simp
  show ?thesis
    using run main_classifies_status [OF run status, of "\<lambda>v. None"] by simp
qed

text \<open>
  Claim C6. When the status code is 200 or 201, the module reports \<open>changed=True\<close> for
  the actions clone, create, update and delete, and \<open>changed=False\<close> for the two
  reading actions get_groups and get_group_mode.
\<close>

theorem changed_on_success:
  assumes "action p \<in>
      set [''get_groups'', ''get_group_mode'', ''clone'', ''update'', ''create'', ''delete'']"
    and "api_call central_api p = (Inr r, calls)"
    and "code r = PInt c" and "c = 200 \<or> c = 201"
  shows "main central_api loads p =
     (Exit_json
        [(''changed'', PBool (action p \<in> set [''clone'', ''create'', ''update'', ''delete''])),
         (''msg'', case loads (resp r) of Some v \<Rightarrow> v | None \<Rightarrow> resp r),
         (''response_code'', PInt c)], calls)"
proof -
  have "str_in ''get'' (action p) =
      (action p \<notin> set [''clone'', ''create'', ''update'', ''delete''])"
    using assms(1) by auto
  then show ?thesis
    using assms(2-4)
    by (cases "loads (resp r)") (auto simp add: main_def Let_def py_in_success)
qed

text \<open>
  Claim C6, at two concrete runs answered with 200: listing the groups reports no
  change, deleting a group reports a change.
\<close>

theorem changed_on_success_witness:
  "main (fixed_reply_api \<lparr>resp = PStr ''ok'', code = PInt 200\<rparr>) (\<lambda>v. None)
        (task ''get_groups'') =
     (Exit_json [(''changed'', PBool False), (''msg'', PStr ''ok''),
                 (''response_code'', PInt 200)],
      [Call_get_headers False ''get'',
       Call_get_url ''/configuration/v2/groups'' [(''limit'', PInt 20), (''offset'', PInt 0)],
       Call_get ''/configuration/v2/groups'' ''get'']) \<and>
   main (fixed_reply_api \<lparr>resp = PStr ''ok'', code = PInt 200\<rparr>) (\<lambda>v. None)
        ((task ''delete'')\<lparr>group_name := Some ''new-test-group''\<rparr>) =
     (Exit_json [(''changed'', PBool True), (''msg'', PStr ''ok''),
                 (''response_code'', PInt 200)],
      [Call_get_headers False ''delete'',
       Call_delete ''/configuration/v1/groups/new-test-group'' ''delete''])"
proof -
  let ?r = "\<lparr>resp = PStr ''ok'', code = PInt 200\<rparr>"
  let ?p = "task ''get_groups''"
  let ?q = "(task ''delete'')\<lparr>group_name := Some ''new-test-group''\<rparr>"
  have listing: "api_call (fixed_reply_api ?r) ?p =
     (Inr ?r,
      [Call_get_headers False ''get'',
       Call_get_url ''/configuration/v2/groups'' [(''limit'', PInt 20), (''offset'', PInt 0)],
       Call_get ''/configuration/v2/groups'' ''get''])"
    by (simp add: api_call_def task_def lower_def lower_char_def get_groups_def
        fixed_reply_api_def int_val_def Let_def)
  have deleting: "api_call (fixed_reply_api ?r) ?q =
     (Inr ?r, [Call_get_headers False ''delete'',
               Call_delete ''/configuration/v1/groups/new-test-group'' ''delete''])"
    by (simp add: api_call_def task_def lower_def lower_char_def delete_group_def
        fixed_reply_api_def str_val_def str_def Let_def)
  have p_known: "action ?p \<in>
      set [''get_groups'', ''get_group_mode'', ''clone'', ''update'', ''create'', ''delete'']"
    by (simp add: task_def)
  have q_known: "action ?q \<in>
      set [''get_groups'', ''get_group_mode'', ''clone'', ''update'', ''create'', ''delete'']"
    by (simp add: task_def)
  have status: "code ?r = PInt 200" and ok: "(200::int) = 200 \<or> (200::int) = 201"
    by simp_all
  show ?thesis
    using changed_on_success [OF p_known listing status ok, of "\<lambda>v. None"]
      changed_on_success [OF q_known deleting status ok, of "\<lambda>v. None"]
    by (simp add: task_def)
qed

section \<open>Validation of the required fields\<close>

text \<open>
  Claim C3. For each of the five actions that require fields, a required field that is
  \<open>None\<close> makes the handler return the record of its canned message with code 400, and
  the handler calls no method of the client at all: neither a request method nor one
  that prepares a request. In particular, cloning with a group name but without
  \<open>clone_from_group\<close> returns code 400 and sends nothing.
\<close>

theorem missing_field_no_call:
  "get_group_mode central_api None =
     (Inr \<lparr>resp = PStr ''List of groups (group_list) not present in the playbook'',
           code = PInt 400\<rparr>, []) \<and>
   clone central_api None clone_from =
     (Inr \<lparr>resp = PStr ''Group name or clone-from-group parameters not present in the playbook'',
           code = PInt 400\<rparr>, []) \<and>
   clone central_api grp_name None =
     (Inr \<lparr>resp = PStr ''Group name or clone-from-group parameters not present in the playbook'',
           code = PInt 400\<rparr>, []) \<and>
   create_group central_api None grp_attributes =
     (Inr \<lparr>resp = PStr ''Group name or Group attributes not present in the playbook'',
           code = PInt 400\<rparr>, []) \<and>
   create_group central_api grp_name None =
     (Inr \<lparr>resp = PStr ''Group name or Group attributes not present in the playbook'',
           code = PInt 400\<rparr>, []) \<and>
   update_group central_api None grp_attributes =
     (Inr \<lparr>resp = PStr ''Group name or Group attributes not present in the playbook'',
           code = PInt 400\<rparr>, []) \<and>
   update_group central_api grp_name None =
     (Inr \<lparr>resp = PStr ''Group name or Group attributes not present in the playbook'',
           code = PInt 400\<rparr>, []) \<and>
   delete_group central_api None =
     (Inr \<lparr>resp = PStr ''Group name to be deleted not present in the playbook'',
           code = PInt 400\<rparr>, []) \<and>
   api_call central_api ((task ''clone'')\<lparr>group_name := Some g\<rparr>) =
     (Inr \<lparr>resp = PStr ''Group name or clone-from-group parameters not present in the playbook'',
           code = PInt 400\<rparr>, [])"
  by (simp add: get_group_mode_def clone_def create_group_def update_group_def delete_group_def
      str_val_def dict_val_def error_msg_get error_msg_clone error_msg_create error_msg_update
      error_msg_delete api_call_def task_def lower_def lower_char_def)

text \<open>
  Claim C3, at a concrete run: cloning into \<open>new-group\<close> with no source group, and
  deleting with no group name.
\<close>

theorem missing_field_no_call_witness:
  "clone (fixed_reply_api \<lparr>resp = PStr ''ok'', code = PInt 200\<rparr>) (Some ''new-group'') None =
     (Inr \<lparr>resp = PStr ''Group name or clone-from-group parameters not present in the playbook'',
           code = PInt 400\<rparr>, []) \<and>
   delete_group (fixed_reply_api \<lparr>resp = PStr ''ok'', code = PInt 200\<rparr>) None =
     (Inr \<lparr>resp = PStr ''Group name to be deleted not present in the playbook'',
           code = PInt 400\<rparr>, [])"
  using missing_field_no_call
    [of "fixed_reply_api \<lparr>resp = PStr ''ok'', code = PInt 200\<rparr>" None "Some ''new-group''"]
  by blast

text \<open>
  Claim C4 as stated does not hold: for \<open>get_group_mode\<close> without \<open>group_list\<close> the
  message is not the text \<open>List of groups not present\<close>.
\<close>

theorem get_group_mode_message_counterexample:
  "fst (api_call (fixed_reply_api \<lparr>resp = PStr ''[]'', code = PInt 200\<rparr>)
          (task ''get_group_mode''))
     \<noteq> Inr \<lparr>resp = PStr ''List of groups not present'', code = PInt 400\<rparr>"
  by (simp add: api_call_def task_def lower_def lower_char_def get_group_mode_def error_msg_def)

text \<open>
  Claim C4, amended. When the action \<open>get_group_mode\<close> is invoked without
  \<open>group_list\<close>, the validation error carries code 400 and exactly the message
  \<open>List of groups (group_list) not present in the playbook\<close>, and nothing is sent.
\<close>

theorem get_group_mode_message:
  "api_call central_api (p\<lparr>action := ''get_group_mode'', group_list := None\<rparr>) =
     (Inr \<lparr>resp = PStr ''List of groups (group_list) not present in the playbook'',
           code = PInt 400\<rparr>, [])"
  by (simp add: api_call_def lower_def lower_char_def get_group_mode_def error_msg_def)

text \<open>Claim C4, amended, at a concrete task with a group name and no list.\<close>

theorem get_group_mode_message_witness:
  "api_call (fixed_reply_api \<lparr>resp = PStr ''[]'', code = PInt 200\<rparr>)
     ((task ''get_groups'')\<lparr>action := ''get_group_mode'', group_list := None\<rparr>) =
     (Inr \<lparr>resp = PStr ''List of groups (group_list) not present in the playbook'',
           code = PInt 400\<rparr>, [])"
  using get_group_mode_message
    [of "fixed_reply_api \<lparr>resp = PStr ''[]'', code = PInt 200\<rparr>" "task ''get_groups''"]
  by blast




section \<open>The unsupported action\<close>



text \<open>
  Claim C10. A validation failure found locally, that is a handler's record of canned
  message and code 400 returned without any call of the client, leaves the module as a
  remote 304, 400 or 404 does: through \<open>exit_json\<close> with \<open>changed=False\<close>, the message
  and the code 400, not through \<open>fail_json\<close>. The message is the canned one, since
  \<open>json.loads\<close> raises \<open>ValueError\<close> on a text that is no JSON document.
\<close>

theorem validation_failure_exit:
  assumes "api_call central_api p = (error_msg m, [])" and "error_msg m = Inr r"
  shows "main central_api loads p =
      (Exit_json [(''changed'', PBool False),
                  (''msg'', case loads (resp r) of Some v \<Rightarrow> v | None \<Rightarrow> resp r),
                  (''response_code'', PInt 400)], []) \<and>
    (loads (resp r) = None \<longrightarrow>
     main central_api loads p =
       (Exit_json [(''changed'', PBool False), (''msg'', resp r),
                   (''response_code'', PInt 400)], []))"
proof -
  have "code r = PInt 400"
    using assms(2) by (rule error_msg_code)
  then show ?thesis
    using assms
    by (cases "loads (resp r)") (simp_all add: main_def Let_def py_in_success py_in_exit)
qed

text \<open>Claim C10, at a concrete run: cloning into \<open>new-group\<close> with no source group.\<close>

theorem validation_failure_exit_witness:
  "api_call (fixed_reply_api \<lparr>resp = PStr ''ok'', code = PInt 200\<rparr>)
     ((task ''clone'')\<lparr>group_name := Some ''new-group''\<rparr>) = (error_msg ''clone'', []) \<and>
   main (fixed_reply_api \<lparr>resp = PStr ''ok'', code = PInt 200\<rparr>) (\<lambda>v. None)
     ((task ''clone'')\<lparr>group_name := Some ''new-group''\<rparr>) =
     (Exit_json
        [(''changed'', PBool False),
         (''msg'', PStr ''Group name or clone-from-group parameters not present in the playbook''),
         (''response_code'', PInt 400)], [])"
proof -
  let ?api = "fixed_reply_api \<lparr>resp = PStr ''ok'', code = PInt 200\<rparr>"
  let ?p = "(task ''clone'')\<lparr>group_name := Some ''new-group''\<rparr>"
  have run: "api_call ?api ?p = (error_msg ''clone'', [])"
    by (simp add: api_call_def task_def lower_def lower_char_def clone_def str_val_def)
  have "main ?api (\<lambda>v. None) ?p =
      (Exit_json
         [(''changed'', PBool False),
          (''msg'', PStr ''Group name or clone-from-group parameters not present in the playbook''),
          (''response_code'', PInt 400)], [])"
    using validation_failure_exit [OF run error_msg_clone, of "\<lambda>v. None"] by simp
  with run show ?thesis by blast
qed

section \<open>The requests of create and update\<close>

text \<open>
  Claim C2. When create is invoked with a group name (a non-empty string, which is
  what the handler tests) and group attributes holding the options of the argument
  specification, the handler posts to \<open>/configuration/v3/groups\<close> the body
  \<open>{group, group_attributes: {template_info: {Wired, Wireless}, group_properties:
  {AllowedDevTypes, Architecture, ApNetworkRole, GwNetworkRole, AllowedSwitchTypes,
  "MonitorOnly:", NewCentral}}}\<close> after \<open>remove_nulls\<close> has pruned it. In particular,
  for the architecture AOS10, the device type \<open>["AccessPoints"]\<close> and every other
  property \<open>None\<close>, the group properties sent hold exactly the keys \<open>AllowedDevTypes\<close>
  and \<open>Architecture\<close>.
\<close>

theorem create_group_request:
  "(grp_name \<noteq> [] \<and>
    map_of ga ''template_info'' = Some (PDict ti) \<and>
    map_of ti ''wired'' = Some wired \<and> map_of ti ''wireless'' = Some wireless \<and>
    map_of ga ''device_type'' = Some device_type \<and>
    map_of ga ''architecture'' = Some architecture \<and>
    map_of ga ''ap_role'' = Some ap_role \<and> map_of ga ''gw_role'' = Some gw_role \<and>
    map_of ga ''switch_type'' = Some switch_type \<and>
    map_of ga ''monitor_mode'' = Some monitor_mode \<and>
    map_of ga ''new_central'' = Some new_central \<longrightarrow>
    create_group central_api (Some grp_name) (Some ga) =
      (Inr (post central_api ''/configuration/v3/groups'' (get_headers central_api False ''post'')
              (PDict (remove_nulls
                 [(''group'', PStr grp_name),
                  (''group_attributes'', PDict
                     [(''template_info'', PDict [(''Wired'', wired), (''Wireless'', wireless)]),
                      (''group_properties'', PDict
                         [(''AllowedDevTypes'', device_type), (''Architecture'', architecture),
                          (''ApNetworkRole'', ap_role), (''GwNetworkRole'', gw_role),
                          (''AllowedSwitchTypes'', switch_type),
                          (''MonitorOnly:'', monitor_mode),
                          (''NewCentral'', new_central)])])]))),
       [Call_get_headers False ''post'',
        Call_post ''/configuration/v3/groups'' (get_headers central_api False ''post'')
          (PDict (remove_nulls
             [(''group'', PStr grp_name),
              (''group_attributes'', PDict
                 [(''template_info'', PDict [(''Wired'', wired), (''Wireless'', wireless)]),
                  (''group_properties'', PDict
                     [(''AllowedDevTypes'', device_type), (''Architecture'', architecture),
                      (''ApNetworkRole'', ap_role), (''GwNetworkRole'', gw_role),
                      (''AllowedSwitchTypes'', switch_type),
                      (''MonitorOnly:'', monitor_mode),
                      (''NewCentral'', new_central)])])]))])) \<and>
   snd (create_group central_api (Some ''new-test-group'')
          (Some [(''template_info'', PDict [(''wireless'', PBool False), (''wired'', PBool False)]),
                 (''architecture'', PStr ''AOS10''),
                 (''device_type'', PList [PStr ''AccessPoints'']),
                 (''ap_role'', PNone), (''gw_role'', PNone), (''switch_type'', PNone),
                 (''monitor_mode'', PNone), (''new_central'', PNone)])) =
     [Call_get_headers False ''post'',
      Call_post ''/configuration/v3/groups'' (get_headers central_api False ''post'')
        (PDict [(''group'', PStr ''new-test-group''),
                (''group_attributes'', PDict
                   [(''template_info'', PDict
                       [(''Wired'', PBool False), (''Wireless'', PBool False)]),
                    (''group_properties'', PDict
                       [(''AllowedDevTypes'', PList [PStr ''AccessPoints'']),
                        (''Architecture'', PStr ''AOS10'')])])])]"
  by (simp add: create_group_def str_val_def dict_val_def subscript_def sum_bind_def Let_def)

text \<open>
  Claim C2, at a concrete run: a group for gateways and switches of which only the
  switch type is given besides the required device types.
\<close>

theorem create_group_request_witness:
  "create_group (fixed_reply_api \<lparr>resp = PStr ''Created'', code = PInt 201\<rparr>) (Some ''branch'')
     (Some [(''template_info'', PDict [(''wireless'', PBool False), (''wired'', PBool True)]),
            (''architecture'', PNone),
            (''device_type'', PList [PStr ''Gateways'', PStr ''Switches'']),
            (''ap_role'', PNone), (''gw_role'', PNone),
            (''switch_type'', PList [PStr ''AOS_CX'']),
            (''monitor_mode'', PNone), (''new_central'', PNone)]) =
     (Inr \<lparr>resp = PStr ''Created'', code = PInt 201\<rparr>,
      [Call_get_headers False ''post'',
       Call_post ''/configuration/v3/groups'' ''post''
         (PDict [(''group'', PStr ''branch''),
                 (''group_attributes'', PDict
                    [(''template_info'', PDict
                        [(''Wired'', PBool True), (''Wireless'', PBool False)]),
                     (''group_properties'', PDict
                        [(''AllowedDevTypes'', PList [PStr ''Gateways'', PStr ''Switches'']),
                         (''AllowedSwitchTypes'', PList [PStr ''AOS_CX''])])])])])"
  using create_group_request
    [where grp_name = "''branch''"
       and ga = "[(''template_info'', PDict [(''wireless'', PBool False), (''wired'', PBool True)]),
                  (''architecture'', PNone),
                  (''device_type'', PList [PStr ''Gateways'', PStr ''Switches'']),
                  (''ap_role'', PNone), (''gw_role'', PNone),
                  (''switch_type'', PList [PStr ''AOS_CX'']),
                  (''monitor_mode'', PNone), (''new_central'', PNone)]"
       and ti = "[(''wireless'', PBool False), (''wired'', PBool True)]"
       and wired = "PBool True" and wireless = "PBool False"
       and device_type = "PList [PStr ''Gateways'', PStr ''Switches'']"
       and architecture = PNone and ap_role = PNone and gw_role = PNone
       and switch_type = "PList [PStr ''AOS_CX'']" and monitor_mode = PNone
       and new_central = PNone
       and central_api = "fixed_reply_api \<lparr>resp = PStr ''Created'', code = PInt 201\<rparr>"]
  by (simp add: fixed_reply_api_def)

text \<open>
  Claim C9. For every update that passes the validation (a non-empty group name and
  group attributes that are not \<open>None\<close>), the handler obtains its headers by
  \<open>get_headers(False, "post")\<close> and sends with them, through the \<open>patch\<close> method of the
  client, the group attributes as they are to \<open>/configuration/v2/groups/{group_name}\<close>.
\<close>

theorem update_group_headers:
  assumes "grp_name \<noteq> []"
  shows "update_group central_api (Some grp_name) (Some ga) =
     (Inr (patch central_api (''/configuration/v2/groups/'' @ grp_name)
             (get_headers central_api False ''post'') (PDict ga)),
      [Call_get_headers False ''post'',
       Call_patch (''/configuration/v2/groups/'' @ grp_name)
         (get_headers central_api False ''post'') (PDict ga)])"
  using assms by (simp add: update_group_def str_val_def dict_val_def str_def Let_def)

text \<open>Claim C9, at a concrete run: a new password for the group \<open>new-test-group\<close>.\<close>

theorem update_group_headers_witness:
  "update_group (fixed_reply_api \<lparr>resp = PStr ''ok'', code = PInt 200\<rparr>)
     (Some ''new-test-group'') (Some [(''group_password'', PStr ''Aruba@2222'')]) =
     (Inr \<lparr>resp = PStr ''ok'', code = PInt 200\<rparr>,
      [Call_get_headers False ''post'',
       Call_patch ''/configuration/v2/groups/new-test-group'' ''post''
         (PDict [(''group_password'', PStr ''Aruba@2222'')])])"
proof -
  have named: "''new-test-group'' \<noteq> []"
    by simp
  show ?thesis
    using update_group_headers
      [OF named, of "fixed_reply_api \<lparr>resp = PStr ''ok'', code = PInt 200\<rparr>"
         "[(''group_password'', PStr ''Aruba@2222'')]"]
    by (simp add: fixed_reply_api_def)
qed

section \<open>Pruning\<close>




end
